theory Spec2Isabelle
  imports Main
begin

section \<open>The configuration package of the daemon (config/config.go)\<close>

text \<open>
  The Go package keeps one active configuration and the HMAC algorithm derived from
  its token in package-level variables, writes a configuration to its file, makes
  sure that the system account of the daemon exists, and gives the server
  directories below the data directory to that account.

  The embedding is sequential: the mutexes of the source (\<^verbatim>\<open>Mutex\<close>, the embedded
  \<^verbatim>\<open>sync.RWMutex\<close> and \<^verbatim>\<open>writeLock\<close>) only order the critical sections and are
  not state of the model. A \<^verbatim>\<open>*Configuration\<close> is an address into a store of
  configuration objects, so that the in-place assignments of \<^verbatim>\<open>setSystemUser\<close> and
  the copy made by \<^verbatim>\<open>WriteToDisk\<close> can be told apart. Addresses are never nil: a
  nil argument or receiver makes every function below panic on its first
  dereference, before it has written anything.
\<close>

subsection \<open>Errors\<close>

text \<open>
  Go errors are values. \<open>NoPathDefined\<close> is the error built by \<^verbatim>\<open>WriteToDisk\<close>
  itself, \<open>UnknownUserError\<close> is the error type of \<^verbatim>\<open>os/user\<close> that
  \<^verbatim>\<open>EnsurePterodactylUser\<close> tests for, and \<open>ExternalError\<close> stands for every
  other error handed back by a library or by the operating system. \<open>ErrSyntax\<close>
  and \<open>ErrRange\<close> are the two errors of \<^verbatim>\<open>strconv\<close>, with the string that was
  parsed.
\<close>

datatype error =
    NoPathDefined
  | UnknownUserError string
  | ErrSyntax string
  | ErrRange string
  | ExternalError string

fun is_UnknownUserError :: "error \<Rightarrow> bool" where
  "is_UnknownUserError (UnknownUserError n) = True"
| "is_UnknownUserError e = False"

subsection \<open>The configuration structs\<close>

record SslConfiguration =
  Enabled :: bool
  CertificateFile :: string
  KeyFile :: string

record ApiConfiguration =
  Host :: string
  Port :: int
  Ssl :: SslConfiguration
  UploadLimit :: int

record ThrottlesConfiguration =
  KillAtCount :: int
  DecaySeconds :: int
  BytesPerInterval :: int
  CheckInterval :: int

text \<open>
  Modelled from the spec: the declaration of \<^verbatim>\<open>SystemConfiguration\<close> is in another
  file of the package. The record has the fields that config.go reads and writes:
  the root data directory, the account name, the numeric identifiers recorded for
  the account, and the switch of the permission pass.
\<close>

record SystemUserIds =
  Uid :: int
  Gid :: int

record SystemConfiguration =
  Data :: string
  Username :: string
  User :: SystemUserIds
  SetPermissionsOnBoot :: bool

text \<open>
  The declaration of \<^verbatim>\<open>DockerConfiguration\<close> is in another file of the package
  too, and config.go never looks inside it: it is the type parameter \<open>'d\<close>.
\<close>

record 'd Configuration =
  path :: string
  Debug :: bool
  Uuid :: string
  AuthenticationTokenId :: string
  AuthenticationToken :: string
  Api :: ApiConfiguration
  System :: SystemConfiguration
  Docker :: 'd
  DiskCheckTimeout :: int
  Throttles :: ThrottlesConfiguration
  PanelLocation :: string

subsection \<open>Values of the libraries\<close>

text \<open>
  \<^verbatim>\<open>jwt.NewHS256(key)\<close> allocates an algorithm object that holds the key. The
  library refuses an empty key: it panics with the message
  \<^verbatim>\<open>jwt: HMAC key is empty\<close>.
\<close>

datatype HMACSHA = HS256 string

datatype panic = HMACKeyEmpty

text \<open>\<^verbatim>\<open>user.User\<close> of \<^verbatim>\<open>os/user\<close>: the identifiers are strings.\<close>

record OsUser =
  u_Uid :: string
  u_Gid :: string
  u_Username :: string
  u_Name :: string
  u_HomeDir :: string

text \<open>\<^verbatim>\<open>os.FileInfo\<close>, as far as \<^verbatim>\<open>EnsureFilePermissions\<close> reads it.\<close>

record FileInfo =
  Name :: string
  IsDir :: bool

text \<open>
  What the operating system does with one \<^verbatim>\<open>ioutil.WriteFile\<close>: the file cannot
  be opened, the write stops with an error after some bytes, or all is written.
\<close>

datatype write_outcome = OpenFails error | WriteFails nat error | WriteOk

subsection \<open>The state of the process and of the host\<close>

text \<open>
  \<open>cfgs\<close> is the store of configuration objects. \<open>g_config\<close>, \<open>g_jwtAlgo\<close> and
  \<open>g_debugViaFlag\<close> are the package variables \<^verbatim>\<open>_config\<close>, \<^verbatim>\<open>_jwtAlgo\<close> and
  \<^verbatim>\<open>_debugViaFlag\<close>; a pointer is \<open>None\<close> when it is nil. \<open>jwts\<close> holds the
  algorithm objects allocated so far, and \<open>g_jwtAlgo\<close> points into it. \<open>files\<close> is
  the content of the files of the host, \<open>accounts\<close> what \<^verbatim>\<open>user.Lookup\<close> answers.
  \<open>cmds\<close>, \<open>chowns\<close> and \<open>warns\<close> record the commands run, the ownership changes
  attempted and the warnings logged.
\<close>

record 'd world =
  cfgs :: "nat \<Rightarrow> 'd Configuration"
  g_config :: "nat option"
  g_jwtAlgo :: "nat option"
  jwts :: "HMACSHA list"
  g_debugViaFlag :: bool
  files :: "string \<Rightarrow> string option"
  accounts :: "string \<Rightarrow> error + OsUser"
  cmds :: "string list list"
  chowns :: "(string \<times> int \<times> int) list"
  warns :: "(string \<times> string \<times> error) list"

text \<open>
  The collaborators that the package calls and does not implement: the YAML
  encoder, the outcome of a file write, the reader of the system release, the
  effect of a command on the accounts of the host, the directory listing, the
  result of an ownership change, and \<^verbatim>\<open>path.Join\<close>.
\<close>

record 'd env =
  yaml_Marshal :: "'d Configuration \<Rightarrow> error + string"
  write_result :: "string \<Rightarrow> string \<Rightarrow> write_outcome"
  osrelease_Read :: "error + (string \<Rightarrow> string option)"
  run_command :: "string list \<Rightarrow> (string \<Rightarrow> error + OsUser)
                    \<Rightarrow> (string \<Rightarrow> error + OsUser) \<times> error option"
  ReadDir :: "string \<Rightarrow> error + FileInfo list"
  os_Chown :: "string \<Rightarrow> int \<Rightarrow> int \<Rightarrow> error option"
  path_Join :: "string \<Rightarrow> string \<Rightarrow> string"

subsection \<open>Set, SetDebugViaFlag, Get, GetJwtAlgorithm, GetPath\<close>

definition NewHS256 :: "string \<Rightarrow> panic + HMACSHA" where
  "NewHS256 key = (if key = [] then Inl HMACKeyEmpty else Inr (HS256 key))"

text \<open>
  \<^verbatim>\<open>Set\<close> has no \<^verbatim>\<open>defer\<close> and no \<^verbatim>\<open>recover\<close>: when \<^verbatim>\<open>jwt.NewHS256\<close> panics,
  neither \<^verbatim>\<open>_jwtAlgo\<close> nor \<^verbatim>\<open>_config\<close> has been written, and the panic leaves
  the function with \<^verbatim>\<open>Mutex\<close> still locked, so that no later call of the package
  gets through. The result \<open>Inl\<close> is this panic.
\<close>

definition Set :: "nat \<Rightarrow> 'd world \<Rightarrow> panic + 'd world" where
  "Set c w =
     (if (case g_config w of
            None \<Rightarrow> True
          | Some old \<Rightarrow>
              AuthenticationToken (cfgs w old) \<noteq> AuthenticationToken (cfgs w c))
      then
        (case NewHS256 (AuthenticationToken (cfgs w c)) of
           Inl p \<Rightarrow> Inl p
         | Inr algo \<Rightarrow>
             Inr (w\<lparr>jwts := jwts w @ [algo],
                    g_jwtAlgo := Some (length (jwts w)),
                    g_config := Some c\<rparr>))
      else Inr (w\<lparr>g_config := Some c\<rparr>))"

definition SetDebugViaFlag :: "bool \<Rightarrow> 'd world \<Rightarrow> 'd world" where
  "SetDebugViaFlag d w = w\<lparr>g_debugViaFlag := d\<rparr>"

definition Get :: "'d world \<Rightarrow> nat option" where
  "Get w = g_config w"

definition GetJwtAlgorithm :: "'d world \<Rightarrow> nat option" where
  "GetJwtAlgorithm w = g_jwtAlgo w"

definition GetPath :: "'d Configuration \<Rightarrow> string" where
  "GetPath c = path c"

subsection \<open>strconv.Atoi\<close>

text \<open>
  \<^verbatim>\<open>strconv.Atoi(s)\<close> is \<^verbatim>\<open>ParseInt(s, 10, 0)\<close> with an \<^verbatim>\<open>int\<close> of 64 bits (its
  fast path for short strings returns the same pairs). \<^verbatim>\<open>ParseUint\<close> reads the
  digits from the left into an unsigned 64-bit number: a byte that is not a
  decimal digit ends the parse with 0 and a syntax error, an overflow ends it
  with the largest value and a range error. \<^verbatim>\<open>ParseInt\<close> takes the sign off
  first, and cuts a value that does not fit the signed type to the nearest bound,
  again with a range error. Both return a value together with the error.
\<close>

definition is_digit :: "char \<Rightarrow> bool" where
  "is_digit c = (c \<in> set ''0123456789'')"

definition digit_val :: "char \<Rightarrow> nat" where
  "digit_val c = of_char c - of_char CHR ''0''"

definition maxUint64 :: nat where
  "maxUint64 = 18446744073709551615"

fun ParseUint_loop :: "string \<Rightarrow> nat \<Rightarrow> string \<Rightarrow> nat \<times> error option" where
  "ParseUint_loop s0 n [] = (n, None)"
| "ParseUint_loop s0 n (c # cs) =
     (if \<not> is_digit c then (0, Some (ErrSyntax s0))
      else if n \<ge> maxUint64 div 10 + 1 then (maxUint64, Some (ErrRange s0))
      else
        (let m = (n * 10) mod (maxUint64 + 1);
             n1 = (m + digit_val c) mod (maxUint64 + 1)
         in if n1 < m \<or> n1 > maxUint64 then (maxUint64, Some (ErrRange s0))
            else ParseUint_loop s0 n1 cs))"

definition ParseUint :: "string \<Rightarrow> nat \<times> error option" where
  "ParseUint s = (if s = [] then (0, Some (ErrSyntax s)) else ParseUint_loop s 0 s)"

definition ParseInt :: "string \<Rightarrow> int \<times> error option" where
  "ParseInt s0 =
     (if s0 = [] then (0, Some (ErrSyntax s0))
      else
        (let neg = (hd s0 = CHR ''-'');
             s = (if hd s0 = CHR ''+'' \<or> hd s0 = CHR ''-'' then tl s0 else s0);
             (un, err) = ParseUint s
         in case err of
              Some (ErrSyntax x) \<Rightarrow> (0, Some (ErrSyntax s0))
            | _ \<Rightarrow>
              (if \<not> neg \<and> un \<ge> 2 ^ 63 then (2 ^ 63 - 1, Some (ErrRange s0))
               else if neg \<and> un > 2 ^ 63 then (- (2 ^ 63), Some (ErrRange s0))
               else (if neg then - int un else int un, None))))"

definition Atoi :: "string \<Rightarrow> int \<times> error option" where
  "Atoi s = ParseInt s"

subsection \<open>WriteToDisk\<close>

text \<open>
  \<^verbatim>\<open>ioutil.WriteFile\<close> opens the file with \<^verbatim>\<open>O_WRONLY|O_CREATE|O_TRUNC\<close>, writes
  the data and closes the file. When the open fails the file is as it was; from
  the open on the old content is gone, and the file holds the bytes that the
  write got through.
\<close>

definition WriteFile ::
  "write_outcome \<Rightarrow> string \<Rightarrow> string \<Rightarrow> (string \<Rightarrow> string option)
     \<Rightarrow> (string \<Rightarrow> string option) \<times> error option" where
  "WriteFile oc filename data fs =
     (case oc of
        OpenFails e \<Rightarrow> (fs, Some e)
      | WriteFails n e \<Rightarrow> (fs(filename \<mapsto> take n data), Some e)
      | WriteOk \<Rightarrow> (fs(filename \<mapsto> data), None))"

text \<open>
  \<open>ccopy\<close> is the local copy \<^verbatim>\<open>ccopy := *c\<close>; the store of configurations is not
  written.
\<close>

definition WriteToDisk :: "'d env \<Rightarrow> nat \<Rightarrow> 'd world \<Rightarrow> 'd world \<times> error option" where
  "WriteToDisk E c w =
     (let ccopy = cfgs w c;
          ccopy = (if g_debugViaFlag w then ccopy\<lparr>Debug := False\<rparr> else ccopy)
      in if path (cfgs w c) = [] then (w, Some NoPathDefined)
         else
           (case yaml_Marshal E ccopy of
              Inl e \<Rightarrow> (w, Some e)
            | Inr b \<Rightarrow>
                (let filename = GetPath (cfgs w c);
                     (fs, r) = WriteFile (write_result E filename b) filename b (files w)
                 in (w\<lparr>files := fs\<rparr>, r))))"

subsection \<open>EnsurePterodactylUser\<close>

definition record_user :: "OsUser \<Rightarrow> 'd Configuration \<Rightarrow> 'd Configuration" where
  "record_user u c =
     (let uid = fst (Atoi (u_Uid u));
          gid = fst (Atoi (u_Gid u))
      in c\<lparr>System := (System c)\<lparr>Username := u_Username u,
                                   User := (User (System c))\<lparr>Uid := uid, Gid := gid\<rparr>\<rparr>\<rparr>)"

definition setSystemUser :: "'d env \<Rightarrow> nat \<Rightarrow> OsUser \<Rightarrow> 'd world \<Rightarrow> 'd world \<times> error option" where
  "setSystemUser E c u w = WriteToDisk E c (w\<lparr>cfgs := (cfgs w)(c := record_user u (cfgs w c))\<rparr>)"

definition getSystemName :: "'d env \<Rightarrow> error + string" where
  "getSystemName E =
     (case osrelease_Read E of
        Inl e \<Rightarrow> Inl e
      | Inr release \<Rightarrow> Inr (case release ''ID'' of None \<Rightarrow> [] | Some v \<Rightarrow> v))"

definition HasPrefix :: "string \<Rightarrow> string \<Rightarrow> bool" where
  "HasPrefix s pre = (length s \<ge> length pre \<and> take (length pre) s = pre)"

text \<open>\<^verbatim>\<open>strings.Split(s, " ")\<close>: the pieces between the separators, never no piece.\<close>

fun Split :: "string \<Rightarrow> char \<Rightarrow> string list" where
  "Split [] sep = [[]]"
| "Split (c # cs) sep =
     (if c = sep then [] # Split cs sep
      else (case Split cs sep of
              [] \<Rightarrow> [[c]]
            | x # xs \<Rightarrow> (c # x) # xs))"

text \<open>
  \<^verbatim>\<open>exec.Command(name, args...).Output()\<close>: the command is recorded, and the host
  says what it did to the accounts and whether it failed.
\<close>

definition exec_Command :: "'d env \<Rightarrow> string list \<Rightarrow> 'd world \<Rightarrow> 'd world \<times> error option" where
  "exec_Command E argv w =
     (let (acc, r) = run_command E argv (accounts w)
      in (w\<lparr>accounts := acc, cmds := cmds w @ [argv]\<rparr>, r))"

definition EnsurePterodactylUser ::
  "'d env \<Rightarrow> nat \<Rightarrow> 'd world \<Rightarrow> 'd world \<times> OsUser option \<times> error option" where
  "EnsurePterodactylUser E c w =
     (case accounts w (Username (System (cfgs w c))) of
        Inr u \<Rightarrow> (let (w', r) = setSystemUser E c u w in (w', Some u, r))
      | Inl err \<Rightarrow>
          if \<not> is_UnknownUserError err then (w, None, Some err)
          else
            (case getSystemName E of
               Inl e \<Rightarrow> (w, None, Some e)
             | Inr sysName \<Rightarrow>
                 (let name = Username (System (cfgs w c));
                      alpine = HasPrefix sysName ''alpine'';
                      command =
                        (if alpine
                         then ''adduser -S -D -H -G '' @ name @ '' -s /bin/false '' @ name
                         else ''useradd --system --no-create-home --shell /bin/false '' @ name);
                      (w1, r1) =
                        (if alpine then exec_Command E [''addgroup'', ''-S'', name] w
                         else (w, None))
                  in case r1 of
                       Some e \<Rightarrow> (w1, None, Some e)
                     | None \<Rightarrow>
                         (let split = Split command CHR '' '';
                              (w2, r2) = exec_Command E (hd split # tl split) w1
                          in case r2 of
                               Some e \<Rightarrow> (w2, None, Some e)
                             | None \<Rightarrow>
                                 (case accounts w2 (Username (System (cfgs w2 c))) of
                                    Inl e \<Rightarrow> (w2, None, Some e)
                                  | Inr u \<Rightarrow>
                                      (let (w', r) = setSystemUser E c u w2
                                       in (w', Some u, r)))))))"

subsection \<open>EnsureFilePermissions\<close>

text \<open>
  The regular expression of the source,
  \<^verbatim>\<open>^[a-f0-9]{8}-[a-f0-9]{4}-4[a-f0-9]{3}-[89ab][a-f0-9]{3}-[a-f0-9]{12}$\<close>, is a
  sequence of literal bytes and of character classes repeated a fixed number of
  times, between \<^verbatim>\<open>^\<close> and \<^verbatim>\<open>$\<close>. Without the multi-line flag Go's \<^verbatim>\<open>$\<close>
  matches at the end of the text only, so the whole name must be matched.
\<close>

datatype re_item = Lit char | Class "char list" nat

fun match_items :: "re_item list \<Rightarrow> string \<Rightarrow> bool" where
  "match_items [] s = (s = [])"
| "match_items (Lit c # r) s =
     (case s of [] \<Rightarrow> False | x # xs \<Rightarrow> x = c \<and> match_items r xs)"
| "match_items (Class cs n # r) s =
     (n \<le> length s \<and> list_all (\<lambda>x. x \<in> set cs) (take n s) \<and> match_items r (drop n s))"

definition hexclass :: "char list" where
  "hexclass = ''abcdef0123456789''"

definition uuid_re :: "re_item list" where
  "uuid_re =
     [Class hexclass 8, Lit CHR ''-'',
      Class hexclass 4, Lit CHR ''-'',
      Lit CHR ''4'', Class hexclass 3, Lit CHR ''-'',
      Class ''89ab'' 1, Class hexclass 3, Lit CHR ''-'',
      Class hexclass 12]"

definition MatchString :: "re_item list \<Rightarrow> string \<Rightarrow> bool" where
  "MatchString r s = match_items r s"

text \<open>
  The body of the goroutine started for one entry. The goroutines share nothing
  but the logs, and the caller waits for all of them, so they are run here in
  the order of the listing.
\<close>

definition chown_entry :: "'d env \<Rightarrow> nat \<Rightarrow> OsUser \<Rightarrow> 'd world \<Rightarrow> FileInfo \<Rightarrow> 'd world" where
  "chown_entry E c su w f =
     (if \<not> IsDir f \<or> \<not> MatchString uuid_re (Name f) then w
      else
        (let uid = fst (Atoi (u_Uid su));
             gid = fst (Atoi (u_Gid su));
             target = path_Join E (Data (System (cfgs w c))) (Name f);
             w1 = w\<lparr>chowns := chowns w @ [(target, uid, gid)]\<rparr>
         in case os_Chown E target uid gid of
              None \<Rightarrow> w1
            | Some e \<Rightarrow>
                w1\<lparr>warns := warns w1 @ [(''failed to chown server directory'', Name f, e)]\<rparr>))"

definition EnsureFilePermissions :: "'d env \<Rightarrow> nat \<Rightarrow> 'd world \<Rightarrow> 'd world \<times> error option" where
  "EnsureFilePermissions E c w =
     (if \<not> SetPermissionsOnBoot (System (cfgs w c)) then (w, None)
      else
        (case ReadDir E (Data (System (cfgs w c))) of
           Inl e \<Rightarrow> (w, Some e)
         | Inr fs \<Rightarrow>
             (case accounts w (Username (System (cfgs w c))) of
                Inl e \<Rightarrow> (w, Some e)
              | Inr su \<Rightarrow> (foldl (chown_entry E c su) w fs, None))))"

subsection \<open>The name pattern in the words of the specification\<close>

text \<open>
  The specification describes the names of the server directories as the canonical
  text of a version 4 UUID: 36 characters, groups of 8, 4, 4, 4 and 12 lower-case
  hexadecimal digits separated by hyphens, the first digit of the third group a
  \<open>4\<close>, the first digit of the fourth group one of \<open>8\<close>, \<open>9\<close>, \<open>a\<close>, \<open>b\<close>.
  \<open>canonical_uuid4\<close> says this position by position; it is compared with the regular
  expression of the source below.
\<close>

definition is_lower_hex :: "char \<Rightarrow> bool" where
  "is_lower_hex c = (c \<in> set ''0123456789abcdef'')"

definition canonical_uuid4 :: "string \<Rightarrow> bool" where
  "canonical_uuid4 s =
     (length s = 36
      \<and> list_all (\<lambda>i. if i \<in> set [8, 13, 18, 23] then s ! i = CHR ''-''
                        else is_lower_hex (s ! i)) [0..<36]
      \<and> s ! 14 = CHR ''4''
      \<and> s ! 19 \<in> set ''89ab'')"

subsection \<open>Sequences of calls\<close>

text \<open>
  The exported operations of the package, and a run of calls from some state of
  the process. A run ends at a panic, in the state in which the panic was raised.
  At the start of the process the package variables hold the zero values of Go:
  two nil pointers and \<open>False\<close>.
\<close>

datatype call =
    CallSet nat
  | CallSetDebugViaFlag bool
  | CallGet
  | CallGetJwtAlgorithm
  | CallEnsurePterodactylUser nat
  | CallEnsureFilePermissions nat
  | CallWriteToDisk nat

fun is_CallSet :: "call \<Rightarrow> bool" where
  "is_CallSet (CallSet c) = True"
| "is_CallSet x = False"

fun do_call :: "'d env \<Rightarrow> 'd world \<Rightarrow> call \<Rightarrow> panic + 'd world" where
  "do_call E w (CallSet c) = Set c w"
| "do_call E w (CallSetDebugViaFlag d) = Inr (SetDebugViaFlag d w)"
| "do_call E w CallGet = Inr w"
| "do_call E w CallGetJwtAlgorithm = Inr w"
| "do_call E w (CallEnsurePterodactylUser c) = Inr (fst (EnsurePterodactylUser E c w))"
| "do_call E w (CallEnsureFilePermissions c) = Inr (fst (EnsureFilePermissions E c w))"
| "do_call E w (CallWriteToDisk c) = Inr (fst (WriteToDisk E c w))"

fun run_calls :: "'d env \<Rightarrow> 'd world \<Rightarrow> call list \<Rightarrow> 'd world" where
  "run_calls E w [] = w"
| "run_calls E w (x # xs) =
     (case do_call E w x of
        Inl p \<Rightarrow> w
      | Inr w' \<Rightarrow> run_calls E w' xs)"

definition process_start :: "'d world \<Rightarrow> bool" where
  "process_start w = (g_config w = None \<and> g_jwtAlgo w = None \<and> \<not> g_debugViaFlag w \<and> jwts w = [])"

subsection \<open>Concrete configurations, hosts and collaborators\<close>

definition ex_user :: OsUser where
  "ex_user = \<lparr>u_Uid = ''998'', u_Gid = ''997'', u_Username = ''pterodactyl'',
               u_Name = ''Pterodactyl'', u_HomeDir = ''/''\<rparr>"

definition ex_system :: SystemConfiguration where
  "ex_system = \<lparr>Data = ''/srv/daemon-data'', Username = ''pterodactyl'',
                 User = \<lparr>Uid = 0, Gid = 0\<rparr>, SetPermissionsOnBoot = True\<rparr>"

definition ex_cfg :: "unit Configuration" where
  "ex_cfg =
     \<lparr>path = ''/etc/pterodactyl/config.yml'', Debug = True, Uuid = ''node-1'',
      AuthenticationTokenId = ''id-1'', AuthenticationToken = ''secret'',
      Api = \<lparr>Host = ''0.0.0.0'', Port = 8080,
             Ssl = \<lparr>Enabled = False, CertificateFile = [], KeyFile = []\<rparr>,
             UploadLimit = 100\<rparr>,
      System = ex_system, Docker = (),
      DiskCheckTimeout = 150,
      Throttles = \<lparr>KillAtCount = 5, DecaySeconds = 10, BytesPerInterval = 4096,
                   CheckInterval = 100\<rparr>,
      PanelLocation = ''https://panel.example.com''\<rparr>"

text \<open>
  Addresses 0 and 1 hold two configuration objects with the same token, address 2
  and all others hold one with another token.
\<close>

definition ex_cfgs :: "nat \<Rightarrow> unit Configuration" where
  "ex_cfgs a = (if a = 0 \<or> a = 1 then ex_cfg else ex_cfg\<lparr>AuthenticationToken := ''other''\<rparr>)"

definition ex_accounts :: "string \<Rightarrow> error + OsUser" where
  "ex_accounts n = (if n = ''pterodactyl'' then Inr ex_user else Inl (UnknownUserError n))"

definition no_accounts :: "string \<Rightarrow> error + OsUser" where
  "no_accounts n = Inl (UnknownUserError n)"

definition ex_world :: "unit world" where
  "ex_world =
     \<lparr>cfgs = ex_cfgs, g_config = None, g_jwtAlgo = None, jwts = [],
      g_debugViaFlag = False,
      files = (\<lambda>f. if f = ''/etc/pterodactyl/config.yml'' then Some ''debug: true'' else None),
      accounts = ex_accounts, cmds = [], chowns = [], warns = []\<rparr>"



text \<open>An encoder that writes the debug field only, and the three listed entries.\<close>

definition ex_marshal :: "unit Configuration \<Rightarrow> error + string" where
  "ex_marshal c = Inr (if Debug c then ''debug: true'' else ''debug: false'')"

definition ex_listing :: "FileInfo list" where
  "ex_listing =
     [\<lparr>Name = ''a1b2c3d4-e5f6-4789-8abc-def012345678'', IsDir = True\<rparr>,
      \<lparr>Name = ''notadirectory.txt'', IsDir = False\<rparr>,
      \<lparr>Name = ''plain-folder'', IsDir = True\<rparr>]"

text \<open>
  A host on which everything works; the account commands create the account.
\<close>

definition ex_env :: "unit env" where
  "ex_env =
     \<lparr>yaml_Marshal = ex_marshal,
      write_result = (\<lambda>f b. WriteOk),
      osrelease_Read = Inr (\<lambda>k. if k = ''ID'' then Some ''debian'' else None),
      run_command = (\<lambda>argv acc. (if hd argv = ''useradd'' then ex_accounts else acc, None)),
      ReadDir = (\<lambda>d. Inr ex_listing),
      os_Chown = (\<lambda>p u g. None),
      path_Join = (\<lambda>d n. d @ ''/'' @ n)\<rparr>"

text \<open>The same host with a full disk: a write stops after three bytes.\<close>

definition full_disk_env :: "unit env" where
  "full_disk_env =
     ex_env\<lparr>write_result := (\<lambda>f b. WriteFails 3 (ExternalError ''no space left on device''))\<rparr>"

text \<open>The same host where every ownership change is refused.\<close>

definition denied_env :: "unit env" where
  "denied_env = ex_env\<lparr>os_Chown := (\<lambda>p u g. Some (ExternalError ''operation not permitted''))\<rparr>"

text \<open>A host without the account, and the state after the account was created.\<close>

definition fresh_world :: "unit world" where
  "fresh_world = ex_world\<lparr>accounts := no_accounts\<rparr>"

definition created_world :: "unit world" where
  "created_world =
     ex_world\<lparr>cfgs := ex_cfgs(0 := ex_cfg\<lparr>System := ex_system\<lparr>User := \<lparr>Uid = 998, Gid = 997\<rparr>\<rparr>\<rparr>),
              cmds := [[''useradd'', ''--system'', ''--no-create-home'', ''--shell'',
                        ''/bin/false'', ''pterodactyl'']]\<rparr>"

subsection \<open>Auxiliary notions for the permission pass\<close>

text \<open>
  \<open>re_len\<close> is the number of bytes that a sequence of items matches.
  \<open>chown_call\<close> is the ownership change that the goroutine of an entry attempts,
  \<open>chown_fails\<close> says that the host refuses it, and \<open>chown_warning\<close> is the
  warning logged then.
\<close>

fun re_len :: "re_item list \<Rightarrow> nat" where
  "re_len [] = 0"
| "re_len (Lit c # r) = Suc (re_len r)"
| "re_len (Class cs n # r) = n + re_len r"

definition chown_call :: "'d env \<Rightarrow> string \<Rightarrow> OsUser \<Rightarrow> FileInfo \<Rightarrow> string \<times> int \<times> int" where
  "chown_call E dir su f =
     (path_Join E dir (Name f), fst (Atoi (u_Uid su)), fst (Atoi (u_Gid su)))"

definition chown_fails :: "'d env \<Rightarrow> string \<Rightarrow> OsUser \<Rightarrow> FileInfo \<Rightarrow> bool" where
  "chown_fails E dir su f =
     (os_Chown E (path_Join E dir (Name f)) (fst (Atoi (u_Uid su))) (fst (Atoi (u_Gid su))) \<noteq> None)"

definition chown_warning :: "'d env \<Rightarrow> string \<Rightarrow> OsUser \<Rightarrow> FileInfo \<Rightarrow> string \<times> string \<times> error" where
  "chown_warning E dir su f =
     (''failed to chown server directory'', Name f,
      the (os_Chown E (path_Join E dir (Name f)) (fst (Atoi (u_Uid su))) (fst (Atoi (u_Gid su)))))"

subsection \<open>What a call leaves alone\<close>

text \<open>
  \<open>same_process w w0\<close>: the state \<open>w0\<close> differs from \<open>w\<close> in the accounts of the
  host and in the record of the commands at most.
\<close>

definition same_process :: "'d world \<Rightarrow> 'd world \<Rightarrow> bool" where
  "same_process w w0 =
     (cfgs w0 = cfgs w \<and> g_config w0 = g_config w \<and> g_jwtAlgo w0 = g_jwtAlgo w
      \<and> jwts w0 = jwts w \<and> g_debugViaFlag w0 = g_debugViaFlag w \<and> files w0 = files w
      \<and> chowns w0 = chowns w \<and> warns w0 = warns w)"


section \<open>Properties\<close>

subsection \<open>Frames of the operations\<close>

text \<open>
  \<^verbatim>\<open>strings.Split\<close> returns at least one piece, so \<^verbatim>\<open>split[0]\<close> in
  \<^verbatim>\<open>EnsurePterodactylUser\<close> is never out of range, and the command run is the list
  of the pieces.
\<close>

lemma Split_nonempty: "Split s sep \<noteq> []"
  by (induction s) (auto split: list.splits)

lemma Split_argv: "hd (Split s sep) # tl (Split s sep) = Split s sep"
  by (simp add: Split_nonempty)

lemma WriteToDisk_only_files:
  "fst (WriteToDisk E c w) = w\<lparr>files := files (fst (WriteToDisk E c w))\<rparr>"
  by (simp add: WriteToDisk_def Let_def split: sum.splits prod.splits)

lemma setSystemUser_only_cfgs_files:
  "fst (setSystemUser E c u w) =
     w\<lparr>cfgs := (cfgs w)(c := record_user u (cfgs w c)),
       files := files (fst (setSystemUser E c u w))\<rparr>"
  unfolding setSystemUser_def
  by (subst WriteToDisk_only_files) simp

lemma exec_Command_shape:
  "fst (exec_Command E argv w) =
     w\<lparr>accounts := accounts (fst (exec_Command E argv w)), cmds := cmds w @ [argv]\<rparr>"
  by (simp add: exec_Command_def split: prod.splits)

lemma same_process_refl: "same_process w w"
  by (simp add: same_process_def)

lemma same_process_exec: "same_process w w1 \<Longrightarrow> same_process w (fst (exec_Command E argv w1))"
  unfolding same_process_def
  by (subst exec_Command_shape, simp)+

lemma EnsurePterodactylUser_found:
  "accounts w (Username (System (cfgs w c))) = Inr u \<Longrightarrow>
   EnsurePterodactylUser E c w =
     (fst (setSystemUser E c u w), Some u, snd (setSystemUser E c u w))"
  by (simp add: EnsurePterodactylUser_def split: prod.splits)

lemma EnsurePterodactylUser_result:
  assumes "EnsurePterodactylUser E c w = (w', ou, r)"
  shows "(ou = None \<and> r \<noteq> None \<and> same_process w w')
         \<or> (\<exists>u w0. ou = Some u \<and> setSystemUser E c u w0 = (w', r)
                \<and> accounts w0 (Username (System (cfgs w c))) = Inr u
                \<and> same_process w w0
                \<and> (\<forall>v. accounts w (Username (System (cfgs w c))) = Inr v \<longrightarrow> w0 = w))"
proof (cases "accounts w (Username (System (cfgs w c)))")
  case (Inr u)
  with assms have "ou = Some u" "setSystemUser E c u w = (w', r)"
    by (auto simp: EnsurePterodactylUser_found prod_eq_iff)
  with Inr show ?thesis
    by (auto simp: same_process_refl)
next
  case (Inl err)
  note look = Inl
  show ?thesis
  proof (cases "is_UnknownUserError err")
    case False
    with look assms show ?thesis
      by (auto simp: EnsurePterodactylUser_def same_process_refl)
  next
    case True
    note unk = True
    show ?thesis
    proof (cases "getSystemName E")
      case (Inl e)
      with look unk assms show ?thesis
        by (auto simp: EnsurePterodactylUser_def same_process_refl)
    next
      case (Inr sysName)
      define name where "name = Username (System (cfgs w c))"
      define alpine where "alpine = HasPrefix sysName ''alpine''"
      define command where "command =
         (if alpine then ''adduser -S -D -H -G '' @ name @ '' -s /bin/false '' @ name
          else ''useradd --system --no-create-home --shell /bin/false '' @ name)"
      define p1 where "p1 = (if alpine then exec_Command E [''addgroup'', ''-S'', name] w else (w, None))"
      define w1 where "w1 = fst p1"
      define r1 where "r1 = snd p1"
      define split where "split = Split command CHR '' ''"
      define p2 where "p2 = exec_Command E (hd split # tl split) w1"
      define w2 where "w2 = fst p2"
      define r2 where "r2 = snd p2"
      have sp1: "same_process w w1"
        unfolding w1_def p1_def by (simp add: same_process_refl same_process_exec)
      have sp2: "same_process w w2"
        unfolding w2_def p2_def by (rule same_process_exec [OF sp1])
      have cf2: "cfgs w2 = cfgs w" using sp2 by (simp add: same_process_def)
      have unf0: "EnsurePterodactylUser E c w =
        (case r1 of Some e \<Rightarrow> (w1, None, Some e)
         | None \<Rightarrow> (case r2 of Some e \<Rightarrow> (w2, None, Some e)
            | None \<Rightarrow> (case accounts w2 (Username (System (cfgs w2 c))) of Inl e \<Rightarrow> (w2, None, Some e)
                | Inr u \<Rightarrow> (fst (setSystemUser E c u w2), Some u, snd (setSystemUser E c u w2)))))"
        unfolding EnsurePterodactylUser_def Let_def case_prod_beta
          w1_def r1_def p1_def w2_def r2_def p2_def split_def command_def alpine_def name_def
        using look unk Inr by simp
      have unf: "EnsurePterodactylUser E c w =
        (case r1 of Some e \<Rightarrow> (w1, None, Some e)
         | None \<Rightarrow> (case r2 of Some e \<Rightarrow> (w2, None, Some e)
            | None \<Rightarrow> (case accounts w2 name of Inl e \<Rightarrow> (w2, None, Some e)
                | Inr u \<Rightarrow> (fst (setSystemUser E c u w2), Some u, snd (setSystemUser E c u w2)))))"
        using unf0 unfolding cf2 name_def .
      show ?thesis
      proof (cases r1)
        case (Some e)
        with unf assms sp1 show ?thesis by auto
      next
        case None
        note n1 = None
        show ?thesis
        proof (cases r2)
          case (Some e)
          with unf assms sp2 n1 show ?thesis by auto
        next
          case None
          note n2 = None
          show ?thesis
          proof (cases "accounts w2 name")
            case (Inl e)
            with unf assms sp2 n1 n2 show ?thesis by auto
          next
            case (Inr u)
            with unf assms n1 n2 have "ou = Some u" "setSystemUser E c u w2 = (w', r)"
              by (auto simp: prod_eq_iff)
            with Inr sp2 look show ?thesis
              by (auto simp: name_def)
          qed
        qed
      qed
    qed
  qed
qed


lemma EnsureFilePermissions_fold_frame:
  "cfgs (foldl (chown_entry E c su) w fs) = cfgs w
   \<and> g_config (foldl (chown_entry E c su) w fs) = g_config w
   \<and> g_jwtAlgo (foldl (chown_entry E c su) w fs) = g_jwtAlgo w
   \<and> files (foldl (chown_entry E c su) w fs) = files w
   \<and> accounts (foldl (chown_entry E c su) w fs) = accounts w
   \<and> cmds (foldl (chown_entry E c su) w fs) = cmds w"
  by (induction fs arbitrary: w) (simp_all add: chown_entry_def Let_def split: option.splits)

lemma EnsureFilePermissions_globals:
  "g_config (fst (EnsureFilePermissions E c w)) = g_config w
   \<and> g_jwtAlgo (fst (EnsureFilePermissions E c w)) = g_jwtAlgo w"
  by (simp add: EnsureFilePermissions_def EnsureFilePermissions_fold_frame split: sum.splits)

lemma WriteToDisk_globals:
  "g_config (fst (WriteToDisk E c w)) = g_config w
   \<and> g_jwtAlgo (fst (WriteToDisk E c w)) = g_jwtAlgo w"
  by (subst (1 2) WriteToDisk_only_files) simp

lemma setSystemUser_globals:
  "g_config (fst (setSystemUser E c u w)) = g_config w
   \<and> g_jwtAlgo (fst (setSystemUser E c u w)) = g_jwtAlgo w"
  by (subst (1 2) setSystemUser_only_cfgs_files) simp

lemma EnsurePterodactylUser_globals:
  "g_config (fst (EnsurePterodactylUser E c w)) = g_config w
   \<and> g_jwtAlgo (fst (EnsurePterodactylUser E c w)) = g_jwtAlgo w"
proof -
  obtain w' ou r where run: "EnsurePterodactylUser E c w = (w', ou, r)"
    by (cases "EnsurePterodactylUser E c w") auto
  from EnsurePterodactylUser_result [OF run] show ?thesis
  proof
    assume "ou = None \<and> r \<noteq> None \<and> same_process w w'"
    with run show ?thesis by (simp add: same_process_def)
  next
    assume "\<exists>u w0. ou = Some u \<and> setSystemUser E c u w0 = (w', r)
                \<and> accounts w0 (Username (System (cfgs w c))) = Inr u
                \<and> same_process w w0
                \<and> (\<forall>v. accounts w (Username (System (cfgs w c))) = Inr v \<longrightarrow> w0 = w)"
    then obtain u w0 where s: "setSystemUser E c u w0 = (w', r)" and p: "same_process w w0"
      by blast
    from setSystemUser_globals [of E c u w0] s p run show ?thesis
      by (simp add: same_process_def)
  qed
qed

lemma do_call_globals:
  "\<not> is_CallSet x \<Longrightarrow>
   \<exists>w'. do_call E w x = Inr w' \<and> g_config w' = g_config w \<and> g_jwtAlgo w' = g_jwtAlgo w"
  by (cases x)
     (simp_all add: SetDebugViaFlag_def WriteToDisk_globals EnsurePterodactylUser_globals
        EnsureFilePermissions_globals)

lemma run_calls_globals:
  "\<forall>x \<in> set cs. \<not> is_CallSet x \<Longrightarrow>
   g_config (run_calls E w cs) = g_config w \<and> g_jwtAlgo (run_calls E w cs) = g_jwtAlgo w"
proof (induction cs arbitrary: w)
  case Nil
  show ?case by simp
next
  case (Cons x xs)
  then have "\<not> is_CallSet x" and rest: "\<forall>y \<in> set xs. \<not> is_CallSet y"
    by simp_all
  then obtain w' where
    step: "do_call E w x = Inr w'" "g_config w' = g_config w" "g_jwtAlgo w' = g_jwtAlgo w"
    using do_call_globals [of x E w] by blast
  from Cons.IH [OF rest, of w'] step show ?case
    by simp
qed

subsection \<open>The snapshot store\<close>

lemma ex_tokens:
  "AuthenticationToken (cfgs ex_world 0) = ''secret''"
  "AuthenticationToken (cfgs ex_world 1) = ''secret''"
  "AuthenticationToken (cfgs ex_world 2) = ''other''"
  by (simp_all add: ex_world_def ex_cfgs_def ex_cfg_def)

lemma ex_Set_0:
  "Set 0 ex_world =
     Inr (ex_world\<lparr>jwts := [HS256 ''secret''], g_jwtAlgo := Some 0, g_config := Some 0\<rparr>)"
  by (simp add: Set_def NewHS256_def ex_tokens) (simp add: ex_world_def)




text \<open>
  C9. Before the first \<^verbatim>\<open>Set\<close> no operation of the package writes \<^verbatim>\<open>_config\<close> or
  \<^verbatim>\<open>_jwtAlgo\<close>: after any run of calls without a \<^verbatim>\<open>Set\<close> from the start of the
  process, \<^verbatim>\<open>Get\<close> and \<^verbatim>\<open>GetJwtAlgorithm\<close> return the nil pointer, which is the
  signal that nothing has been set, and never the address of a configuration.
\<close>

theorem Get_before_first_Set:
  assumes "process_start w" and "\<forall>x \<in> set cs. \<not> is_CallSet x"
  shows "Get (run_calls E w cs) = None \<and> GetJwtAlgorithm (run_calls E w cs) = None"
  using assms run_calls_globals [of cs E w]
  by (simp add: Get_def GetJwtAlgorithm_def process_start_def)

theorem Get_before_first_Set_witness:
  "process_start ex_world
   \<and> \<not> is_CallSet (CallSetDebugViaFlag True) \<and> \<not> is_CallSet (CallWriteToDisk 0)
   \<and> \<not> is_CallSet CallGet
   \<and> Get (run_calls ex_env ex_world [CallSetDebugViaFlag True, CallWriteToDisk 0, CallGet]) = None
   \<and> GetJwtAlgorithm (run_calls ex_env ex_world [CallSetDebugViaFlag True, CallWriteToDisk 0, CallGet]) = None
   \<and> Get (run_calls ex_env ex_world [CallSet 0, CallGet]) = Some 0"
proof -
  have a: "process_start ex_world"
    by (simp add: process_start_def ex_world_def)
  have b: "\<forall>x \<in> set [CallSetDebugViaFlag True, CallWriteToDisk 0, CallGet]. \<not> is_CallSet x"
    by simp
  have c: "Get (run_calls ex_env ex_world [CallSet 0, CallGet]) = Some 0"
    by (simp add: ex_Set_0 Get_def)
  from Get_before_first_Set [OF a b, of ex_env] a c show ?thesis
    by simp
qed

subsection \<open>The persistence writer\<close>

text \<open>
  C8. \<^verbatim>\<open>WriteToDisk\<close> writes no configuration object and no package variable: the
  store of configurations after the call is the store before it, so the \<^verbatim>\<open>Debug\<close>
  field of the configuration keeps its value also when the override makes the
  written document say false, and every other field is unchanged.
\<close>

theorem WriteToDisk_leaves_snapshot:
  "cfgs (fst (WriteToDisk E c w)) = cfgs w
   \<and> Debug (cfgs (fst (WriteToDisk E c w)) c) = Debug (cfgs w c)
   \<and> g_config (fst (WriteToDisk E c w)) = g_config w
   \<and> g_jwtAlgo (fst (WriteToDisk E c w)) = g_jwtAlgo w
   \<and> g_debugViaFlag (fst (WriteToDisk E c w)) = g_debugViaFlag w"
  by (subst (1 2 3 4 5) WriteToDisk_only_files) simp

theorem WriteToDisk_leaves_snapshot_witness:
  "g_debugViaFlag (SetDebugViaFlag True ex_world)
   \<and> Debug (cfgs (SetDebugViaFlag True ex_world) 0)
   \<and> files (fst (WriteToDisk ex_env 0 (SetDebugViaFlag True ex_world)))
        ''/etc/pterodactyl/config.yml'' = Some ''debug: false''
   \<and> Debug (cfgs (fst (WriteToDisk ex_env 0 (SetDebugViaFlag True ex_world))) 0)
   \<and> cfgs (fst (WriteToDisk ex_env 0 (SetDebugViaFlag True ex_world))) = ex_cfgs"
proof -
  have f: "files (fst (WriteToDisk ex_env 0 (SetDebugViaFlag True ex_world)))
        ''/etc/pterodactyl/config.yml'' = Some ''debug: false''"
    by (simp add: WriteToDisk_def SetDebugViaFlag_def ex_world_def ex_env_def ex_cfgs_def
          ex_cfg_def ex_marshal_def GetPath_def WriteFile_def Let_def)
  from WriteToDisk_leaves_snapshot [of ex_env 0 "SetDebugViaFlag True ex_world"] f
  show ?thesis
    by (simp add: SetDebugViaFlag_def ex_world_def ex_cfgs_def ex_cfg_def)
qed


lemma WriteToDisk_written:
  assumes "path (cfgs w c) \<noteq> []"
    and "yaml_Marshal E (if g_debugViaFlag w then (cfgs w c)\<lparr>Debug := False\<rparr> else cfgs w c) = Inr b"
  shows "WriteToDisk E c w =
           (w\<lparr>files := fst (WriteFile (write_result E (path (cfgs w c)) b) (path (cfgs w c)) b (files w))\<rparr>,
            snd (WriteFile (write_result E (path (cfgs w c)) b) (path (cfgs w c)) b (files w)))"
  using assms
  by (simp add: WriteToDisk_def Let_def GetPath_def split: prod.splits)

lemma WriteToDisk_ok_marshalled:
  assumes "WriteToDisk E c w = (w', None)"
  shows "\<exists>b. yaml_Marshal E (if g_debugViaFlag w then (cfgs w c)\<lparr>Debug := False\<rparr> else cfgs w c) = Inr b"
  using assms
  by (cases "yaml_Marshal E (if g_debugViaFlag w then (cfgs w c)\<lparr>Debug := False\<rparr> else cfgs w c)")
     (auto simp: WriteToDisk_def Let_def split: if_splits)

lemma WriteFile_ok:
  "WriteFile oc f b fs = (fs', None) \<Longrightarrow> fs' f = Some b"
  by (cases oc) (auto simp: WriteFile_def)


lemma ex_write_flag:
  "WriteToDisk ex_env 0 (SetDebugViaFlag True ex_world) =
     ((SetDebugViaFlag True ex_world)
        \<lparr>files := (files ex_world)(''/etc/pterodactyl/config.yml'' \<mapsto> ''debug: false'')\<rparr>, None)"
  by (simp add: WriteToDisk_def SetDebugViaFlag_def ex_world_def ex_env_def ex_cfgs_def
        ex_cfg_def ex_marshal_def GetPath_def WriteFile_def Let_def)

lemma ex_write_noflag:
  "WriteToDisk ex_env 0 ex_world =
     (ex_world\<lparr>files := (files ex_world)(''/etc/pterodactyl/config.yml'' \<mapsto> ''debug: true'')\<rparr>, None)"
  by (simp add: WriteToDisk_def ex_world_def ex_env_def ex_cfgs_def
        ex_cfg_def ex_marshal_def GetPath_def WriteFile_def Let_def)

lemma ex_path: "path (cfgs ex_world 0) = ''/etc/pterodactyl/config.yml''"
  by (simp add: ex_world_def ex_cfgs_def ex_cfg_def)

lemma ex_Debug: "Debug (cfgs ex_world 0)"
  by (simp add: ex_world_def ex_cfgs_def ex_cfg_def)

lemma ex_noflag: "\<not> g_debugViaFlag ex_world"
  by (simp add: ex_world_def)

lemma SetDebugViaFlag_simps:
  "cfgs (SetDebugViaFlag d w) = cfgs w" "g_debugViaFlag (SetDebugViaFlag d w) = d"
  by (simp_all add: SetDebugViaFlag_def)

lemma ex_marshal_simps:
  "yaml_Marshal ex_env c = Inr (if Debug c then ''debug: true'' else ''debug: false'')"
  "yaml_Marshal full_disk_env c = Inr (if Debug c then ''debug: true'' else ''debug: false'')"
  by (simp_all add: full_disk_env_def ex_env_def ex_marshal_def)

text \<open>
  C2. When \<^verbatim>\<open>WriteToDisk\<close> has written the file of a configuration with a path, the
  file holds the encoding of the configuration with \<^verbatim>\<open>Debug\<close> set to false if the
  debug-via-flag override is active, whatever the \<^verbatim>\<open>Debug\<close> field in memory says,
  and the encoding of the configuration as it is, \<^verbatim>\<open>Debug\<close> included, if the
  override is not active.
\<close>

theorem WriteToDisk_debug_override:
  assumes "path (cfgs w c) \<noteq> []" and "WriteToDisk E c w = (w', None)"
  shows "(g_debugViaFlag w \<longrightarrow>
            (\<exists>b. yaml_Marshal E ((cfgs w c)\<lparr>Debug := False\<rparr>) = Inr b
                 \<and> files w' (path (cfgs w c)) = Some b))
       \<and> (\<not> g_debugViaFlag w \<longrightarrow>
            (\<exists>b. yaml_Marshal E (cfgs w c) = Inr b
                 \<and> files w' (path (cfgs w c)) = Some b))"
proof -
  from WriteToDisk_ok_marshalled [OF assms(2)] obtain b where
    m: "yaml_Marshal E (if g_debugViaFlag w then (cfgs w c)\<lparr>Debug := False\<rparr> else cfgs w c) = Inr b"
    by blast
  from WriteToDisk_written [OF assms(1) m] assms(2)
  have "WriteFile (write_result E (path (cfgs w c)) b) (path (cfgs w c)) b (files w) = (files w', None)"
    by (auto simp: prod_eq_iff)
  then have "files w' (path (cfgs w c)) = Some b"
    by (rule WriteFile_ok)
  with m show ?thesis
    by (cases "g_debugViaFlag w") simp_all
qed

theorem WriteToDisk_debug_override_witness:
  "Debug (cfgs ex_world 0)
   \<and> path (cfgs ex_world 0) = ''/etc/pterodactyl/config.yml''
   \<and> files (fst (WriteToDisk ex_env 0 (SetDebugViaFlag True ex_world)))
        ''/etc/pterodactyl/config.yml'' = Some ''debug: false''
   \<and> files (fst (WriteToDisk ex_env 0 ex_world))
        ''/etc/pterodactyl/config.yml'' = Some ''debug: true''"
proof -
  have p: "path (cfgs (SetDebugViaFlag True ex_world) 0) \<noteq> []" "path (cfgs ex_world 0) \<noteq> []"
    by (simp_all add: SetDebugViaFlag_simps ex_path)
  from WriteToDisk_debug_override [OF p(1) ex_write_flag]
       WriteToDisk_debug_override [OF p(2) ex_write_noflag]
  show ?thesis
    by (simp add: SetDebugViaFlag_simps ex_path ex_Debug ex_noflag ex_marshal_simps
          ex_write_flag ex_write_noflag)
qed




subsection \<open>The identity provisioner\<close>

lemma setSystemUser_result:
  assumes "setSystemUser E c u w0 = (w', r)"
  shows "WriteToDisk E c (w0\<lparr>cfgs := (cfgs w0)(c := record_user u (cfgs w0 c))\<rparr>) = (w', r)"
    and "cfgs w' = (cfgs w0)(c := record_user u (cfgs w0 c))"
    and "accounts w' = accounts w0" and "cmds w' = cmds w0"
proof -
  show "WriteToDisk E c (w0\<lparr>cfgs := (cfgs w0)(c := record_user u (cfgs w0 c))\<rparr>) = (w', r)"
    using assms by (simp add: setSystemUser_def)
  have "w' = fst (setSystemUser E c u w0)"
    using assms by simp
  then have w': "w' = w0\<lparr>cfgs := (cfgs w0)(c := record_user u (cfgs w0 c)), files := files w'\<rparr>"
    using setSystemUser_only_cfgs_files [of E c u w0] by simp
  show "cfgs w' = (cfgs w0)(c := record_user u (cfgs w0 c))"
    by (subst w') simp
  show "accounts w' = accounts w0"
    by (subst w') simp
  show "cmds w' = cmds w0"
    by (subst w') simp
qed

lemma record_user_fields:
  "Username (System (record_user u c)) = u_Username u"
  "Uid (User (System (record_user u c))) = fst (Atoi (u_Uid u))"
  "Gid (User (System (record_user u c))) = fst (Atoi (u_Gid u))"
  by (simp_all add: record_user_def Let_def)

lemma ex_name: "Username (System (cfgs ex_world 0)) = ''pterodactyl''"
  by (simp add: ex_world_def ex_cfgs_def ex_cfg_def ex_system_def)

lemma ex_lookup: "accounts ex_world ''pterodactyl'' = Inr ex_user"
  by (simp add: ex_world_def ex_accounts_def)

lemma Atoi_998: "Atoi ''998'' = (998, None)"
  by (simp add: Atoi_def ParseInt_def ParseUint_def is_digit_def digit_val_def maxUint64_def Let_def)

lemma Atoi_997: "Atoi ''997'' = (997, None)"
  by (simp add: Atoi_def ParseInt_def ParseUint_def is_digit_def digit_val_def maxUint64_def Let_def)

lemma ex_record_user:
  "record_user ex_user (ex_cfgs 0) =
     ex_cfg\<lparr>System := ex_system\<lparr>User := \<lparr>Uid = 998, Gid = 997\<rparr>\<rparr>\<rparr>"
  by (simp add: record_user_def Let_def ex_user_def Atoi_998 Atoi_997 ex_cfgs_def
        ex_cfg_def ex_system_def)

lemma ex_full_disk_run:
  "EnsurePterodactylUser full_disk_env 0 ex_world =
     (ex_world\<lparr>cfgs := ex_cfgs(0 := ex_cfg\<lparr>System := ex_system\<lparr>User := \<lparr>Uid = 998, Gid = 997\<rparr>\<rparr>\<rparr>),
               files := (files ex_world)(''/etc/pterodactyl/config.yml'' \<mapsto> ''deb'')\<rparr>,
      Some ex_user, Some (ExternalError ''no space left on device''))"
proof -
  have l: "accounts ex_world (Username (System (cfgs ex_world 0))) = Inr ex_user"
    by (simp add: ex_name ex_lookup)
  have c: "cfgs ex_world = ex_cfgs"
    by (simp add: ex_world_def)
  have s: "setSystemUser full_disk_env 0 ex_user ex_world =
     (ex_world\<lparr>cfgs := ex_cfgs(0 := ex_cfg\<lparr>System := ex_system\<lparr>User := \<lparr>Uid = 998, Gid = 997\<rparr>\<rparr>\<rparr>),
               files := (files ex_world)(''/etc/pterodactyl/config.yml'' \<mapsto> ''deb'')\<rparr>,
      Some (ExternalError ''no space left on device''))"
    unfolding setSystemUser_def c
    by (simp add: ex_record_user WriteToDisk_def Let_def GetPath_def WriteFile_def
          full_disk_env_def ex_env_def ex_marshal_def ex_cfg_def ex_world_def)
  show ?thesis
    unfolding EnsurePterodactylUser_found [OF l] s by simp
qed

lemma EnsurePterodactylUser_second_lookup:
  assumes "EnsurePterodactylUser E c w = (w1, Some u, r1)"
    and "u_Username u = Username (System (cfgs w c))"
  shows "accounts w1 (Username (System (cfgs w1 c))) = Inr u"
proof -
  from EnsurePterodactylUser_result [OF assms(1)] obtain w0 where
    s: "setSystemUser E c u w0 = (w1, r1)"
    and a: "accounts w0 (Username (System (cfgs w c))) = Inr u"
    by auto
  from setSystemUser_result [OF s]
  have "cfgs w1 c = record_user u (cfgs w0 c)" and acc: "accounts w1 = accounts w0"
    by simp_all
  then have "Username (System (cfgs w1 c)) = u_Username u"
    by (simp add: record_user_fields)
  with assms(2) a acc show ?thesis
    by simp
qed

lemma EnsurePterodactylUser_found_effect:
  assumes "accounts w (Username (System (cfgs w c))) = Inr u"
  shows "fst (snd (EnsurePterodactylUser E c w)) = Some u"
    and "cmds (fst (EnsurePterodactylUser E c w)) = cmds w"
    and "accounts (fst (EnsurePterodactylUser E c w)) = accounts w"
    and "Uid (User (System (cfgs (fst (EnsurePterodactylUser E c w)) c))) = fst (Atoi (u_Uid u))"
    and "Gid (User (System (cfgs (fst (EnsurePterodactylUser E c w)) c))) = fst (Atoi (u_Gid u))"
proof -
  obtain w' r where s: "setSystemUser E c u w = (w', r)"
    by (cases "setSystemUser E c u w") auto
  have run: "EnsurePterodactylUser E c w = (w', Some u, r)"
    by (simp add: EnsurePterodactylUser_found [OF assms] s)
  from setSystemUser_result [OF s] run
  show "fst (snd (EnsurePterodactylUser E c w)) = Some u"
    and "cmds (fst (EnsurePterodactylUser E c w)) = cmds w"
    and "accounts (fst (EnsurePterodactylUser E c w)) = accounts w"
    and "Uid (User (System (cfgs (fst (EnsurePterodactylUser E c w)) c))) = fst (Atoi (u_Uid u))"
    and "Gid (User (System (cfgs (fst (EnsurePterodactylUser E c w)) c))) = fst (Atoi (u_Gid u))"
    by (simp_all add: record_user_fields)
qed

lemma ex_useradd_split:
  "Split ''useradd --system --no-create-home --shell /bin/false pterodactyl'' CHR '' '' =
     [''useradd'', ''--system'', ''--no-create-home'', ''--shell'', ''/bin/false'', ''pterodactyl'']"
  by simp

lemma ex_setSystemUser:
  "cfgs w = ex_cfgs \<Longrightarrow> \<not> g_debugViaFlag w \<Longrightarrow>
   setSystemUser ex_env 0 ex_user w =
     (w\<lparr>cfgs := ex_cfgs(0 := ex_cfg\<lparr>System := ex_system\<lparr>User := \<lparr>Uid = 998, Gid = 997\<rparr>\<rparr>\<rparr>),
        files := (files w)(''/etc/pterodactyl/config.yml'' \<mapsto> ''debug: true'')\<rparr>, None)"
  unfolding setSystemUser_def
  by (simp add: ex_record_user WriteToDisk_def Let_def GetPath_def WriteFile_def
        ex_env_def ex_marshal_def ex_cfg_def)

lemma ex_created_run:
  "EnsurePterodactylUser ex_env 0 fresh_world = (created_world, Some ex_user, None)"
proof -
  have n: "Username (System (cfgs fresh_world 0)) = ''pterodactyl''"
    by (simp add: fresh_world_def ex_world_def ex_cfgs_def ex_cfg_def ex_system_def)
  have l: "accounts fresh_world ''pterodactyl'' = Inl (UnknownUserError ''pterodactyl'')"
    by (simp add: fresh_world_def no_accounts_def)
  have g: "getSystemName ex_env = Inr ''debian''"
    by (simp add: getSystemName_def ex_env_def)
  have h: "\<not> HasPrefix ''debian'' ''alpine''"
    by (simp add: HasPrefix_def)
  have e: "exec_Command ex_env
             [''useradd'', ''--system'', ''--no-create-home'', ''--shell'', ''/bin/false'',
              ''pterodactyl''] fresh_world =
           (fresh_world\<lparr>accounts := ex_accounts,
              cmds := [[''useradd'', ''--system'', ''--no-create-home'', ''--shell'',
                        ''/bin/false'', ''pterodactyl'']]\<rparr>, None)"
    by (simp add: exec_Command_def ex_env_def fresh_world_def ex_world_def)
  let ?w2 = "fresh_world\<lparr>accounts := ex_accounts,
              cmds := [[''useradd'', ''--system'', ''--no-create-home'', ''--shell'',
                        ''/bin/false'', ''pterodactyl'']]\<rparr>"
  have s: "setSystemUser ex_env 0 ex_user ?w2 =
     (?w2\<lparr>cfgs := ex_cfgs(0 := ex_cfg\<lparr>System := ex_system\<lparr>User := \<lparr>Uid = 998, Gid = 997\<rparr>\<rparr>\<rparr>),
        files := (files ?w2)(''/etc/pterodactyl/config.yml'' \<mapsto> ''debug: true'')\<rparr>, None)"
    by (rule ex_setSystemUser) (simp_all add: fresh_world_def ex_world_def)
  have f: "(files fresh_world)(''/etc/pterodactyl/config.yml'' \<mapsto> ''debug: true'') = files ex_world"
    by (auto simp: fresh_world_def ex_world_def)
  have w: "fresh_world
     \<lparr>accounts := ex_accounts,
        cmds := [[''useradd'', ''--system'', ''--no-create-home'', ''--shell'',
                  ''/bin/false'', ''pterodactyl'']],
        cfgs := ex_cfgs(0 := ex_cfg\<lparr>System := ex_system\<lparr>User := \<lparr>Uid = 998, Gid = 997\<rparr>\<rparr>\<rparr>),
        files := (files fresh_world)(''/etc/pterodactyl/config.yml'' \<mapsto> ''debug: true'')\<rparr>
     = created_world"
    unfolding f by (simp add: created_world_def fresh_world_def ex_world_def)
  have n2: "Username (System (cfgs ?w2 0)) = ''pterodactyl''"
    by (simp add: n)
  have l3: "ex_accounts ''pterodactyl'' = Inr ex_user"
    by (simp add: ex_accounts_def)
  show ?thesis
    unfolding EnsurePterodactylUser_def n l
    by (simp add: g h Let_def e n l3 s w)
qed


lemma created_world_simps:
  "cmds created_world =
     [[''useradd'', ''--system'', ''--no-create-home'', ''--shell'', ''/bin/false'', ''pterodactyl'']]"
  "User (System (cfgs created_world 0)) = \<lparr>Uid = 998, Gid = 997\<rparr>"
  by (simp_all add: created_world_def ex_system_def)

lemma ParseInt_syntax_zero:
  "snd (ParseInt s) = Some (ErrSyntax x) \<Longrightarrow> fst (ParseInt s) = 0"
  by (auto simp: ParseInt_def Let_def split: if_splits prod.splits option.splits error.splits)

lemma ParseInt_range_bound:
  "snd (ParseInt s) = Some (ErrRange x) \<Longrightarrow>
   fst (ParseInt s) = 2 ^ 63 - 1 \<or> fst (ParseInt s) = - (2 ^ 63)"
  by (auto simp: ParseInt_def Let_def split: if_splits prod.splits option.splits error.splits)

lemma ParseInt_error_kinds:
  "snd (ParseInt s) = Some e \<Longrightarrow> e = ErrSyntax s \<or> e = ErrRange s"
  by (auto simp: ParseInt_def Let_def split: if_splits prod.splits option.splits error.splits)


lemma setSystemUser_recorded:
  "Username (System (cfgs (fst (setSystemUser E c u w)) c)) = u_Username u"
  "Uid (User (System (cfgs (fst (setSystemUser E c u w)) c))) = fst (Atoi (u_Uid u))"
  "Gid (User (System (cfgs (fst (setSystemUser E c u w)) c))) = fst (Atoi (u_Gid u))"
  by (subst setSystemUser_only_cfgs_files, simp add: record_user_fields)+

lemma ex_env_write_ok:
  "path (cfgs w c) \<noteq> [] \<Longrightarrow> snd (WriteToDisk ex_env c w) = None"
  by (simp add: WriteToDisk_def Let_def ex_env_def ex_marshal_def WriteFile_def)

lemma path_record_user: "path (record_user u c) = path c"
  by (simp add: record_user_def Let_def)

lemma ex_setSystemUser_ok: "snd (setSystemUser ex_env 0 u ex_world) = None"
  unfolding setSystemUser_def
  by (rule ex_env_write_ok) (simp add: path_record_user ex_path)

lemma Atoi_out_of_range:
  "Atoi ''9223372036854775808'' = (9223372036854775807, Some (ErrRange ''9223372036854775808''))"
  by (simp add: Atoi_def ParseInt_def ParseUint_def is_digit_def digit_val_def maxUint64_def Let_def)

lemma Atoi_not_a_number:
  "Atoi ''S-1-5-21'' = (0, Some (ErrSyntax ''S-1-5-21''))"
  by (simp add: Atoi_def ParseInt_def ParseUint_def is_digit_def digit_val_def maxUint64_def Let_def)

text \<open>
  C7. Whenever \<^verbatim>\<open>EnsurePterodactylUser\<close> has resolved a user record, by the first
  lookup or by the lookup after the creation, what it returns as error is what
  \<^verbatim>\<open>WriteToDisk\<close> returned for the updated configuration: a failure to persist
  is the error of the call. The account exists on the host all the same, and the
  configuration in memory holds the name and the identifiers of the record.
\<close>

theorem EnsurePterodactylUser_persist_failure:
  assumes "EnsurePterodactylUser E c w = (w', Some u, r)"
  shows "\<exists>w0. same_process w w0
            \<and> WriteToDisk E c (w0\<lparr>cfgs := (cfgs w0)(c := record_user u (cfgs w0 c))\<rparr>) = (w', r)
            \<and> accounts w' (Username (System (cfgs w c))) = Inr u
            \<and> cfgs w' c = record_user u (cfgs w c)"
proof -
  from EnsurePterodactylUser_result [OF assms] obtain w0 where
    s: "setSystemUser E c u w0 = (w', r)"
    and a: "accounts w0 (Username (System (cfgs w c))) = Inr u"
    and p: "same_process w w0"
    by auto
  from p have cf: "cfgs w0 = cfgs w"
    by (simp add: same_process_def)
  from setSystemUser_result [OF s] a cf p show ?thesis
    by auto
qed

theorem EnsurePterodactylUser_persist_failure_witness:
  "EnsurePterodactylUser full_disk_env 0 ex_world =
     (ex_world\<lparr>cfgs := ex_cfgs(0 := ex_cfg\<lparr>System := ex_system\<lparr>User := \<lparr>Uid = 998, Gid = 997\<rparr>\<rparr>\<rparr>),
               files := (files ex_world)(''/etc/pterodactyl/config.yml'' \<mapsto> ''deb'')\<rparr>,
      Some ex_user, Some (ExternalError ''no space left on device''))
   \<and> (\<exists>w0. same_process ex_world w0
          \<and> snd (WriteToDisk full_disk_env 0
                 (w0\<lparr>cfgs := (cfgs w0)(0 := record_user ex_user (cfgs w0 0))\<rparr>))
              = Some (ExternalError ''no space left on device''))"
  using EnsurePterodactylUser_persist_failure [OF ex_full_disk_run] ex_full_disk_run
  by auto

text \<open>
  C5. When the lookup of the configured account name succeeds,
  \<^verbatim>\<open>EnsurePterodactylUser\<close> returns the record found, records its identifiers and
  runs no command. Hence a second call, after a first call that returned the
  record of the configured name, returns the same record, leaves the recorded
  identifiers as they are and runs no command, whatever the collaborators do the
  second time.
\<close>

theorem EnsurePterodactylUser_idempotent:
  "(accounts w (Username (System (cfgs w c))) = Inr u \<longrightarrow>
      fst (snd (EnsurePterodactylUser E c w)) = Some u
      \<and> cmds (fst (EnsurePterodactylUser E c w)) = cmds w
      \<and> Uid (User (System (cfgs (fst (EnsurePterodactylUser E c w)) c))) = fst (Atoi (u_Uid u))
      \<and> Gid (User (System (cfgs (fst (EnsurePterodactylUser E c w)) c))) = fst (Atoi (u_Gid u)))
   \<and> (EnsurePterodactylUser E c w = (w1, Some u, r1)
       \<and> u_Username u = Username (System (cfgs w c)) \<longrightarrow>
      fst (snd (EnsurePterodactylUser E2 c w1)) = Some u
      \<and> cmds (fst (EnsurePterodactylUser E2 c w1)) = cmds w1
      \<and> User (System (cfgs (fst (EnsurePterodactylUser E2 c w1)) c)) = User (System (cfgs w1 c)))"
proof (intro conjI impI)
  assume a: "accounts w (Username (System (cfgs w c))) = Inr u"
  from EnsurePterodactylUser_found_effect [OF a, of E]
  show "fst (snd (EnsurePterodactylUser E c w)) = Some u"
    and "cmds (fst (EnsurePterodactylUser E c w)) = cmds w"
    and "Uid (User (System (cfgs (fst (EnsurePterodactylUser E c w)) c))) = fst (Atoi (u_Uid u))"
    and "Gid (User (System (cfgs (fst (EnsurePterodactylUser E c w)) c))) = fst (Atoi (u_Gid u))"
    by simp_all
next
  assume b: "EnsurePterodactylUser E c w = (w1, Some u, r1)
       \<and> u_Username u = Username (System (cfgs w c))"
  then have run: "EnsurePterodactylUser E c w = (w1, Some u, r1)"
    and nm: "u_Username u = Username (System (cfgs w c))"
    by simp_all
  have l: "accounts w1 (Username (System (cfgs w1 c))) = Inr u"
    by (rule EnsurePterodactylUser_second_lookup [OF run nm])
  from EnsurePterodactylUser_result [OF run] obtain w0 where
    s: "setSystemUser E c u w0 = (w1, r1)"
    by auto
  from setSystemUser_result [OF s]
  have ids: "Uid (User (System (cfgs w1 c))) = fst (Atoi (u_Uid u))"
            "Gid (User (System (cfgs w1 c))) = fst (Atoi (u_Gid u))"
    by (simp_all add: record_user_fields)
  from EnsurePterodactylUser_found_effect [OF l, of E2]
  show "fst (snd (EnsurePterodactylUser E2 c w1)) = Some u"
    and "cmds (fst (EnsurePterodactylUser E2 c w1)) = cmds w1"
    by simp_all
  from EnsurePterodactylUser_found_effect(4,5) [OF l, of E2] ids
  show "User (System (cfgs (fst (EnsurePterodactylUser E2 c w1)) c)) = User (System (cfgs w1 c))"
    by (simp add: SystemUserIds.equality)
qed

theorem EnsurePterodactylUser_idempotent_witness:
  "EnsurePterodactylUser ex_env 0 fresh_world = (created_world, Some ex_user, None)
   \<and> u_Username ex_user = Username (System (cfgs fresh_world 0))
   \<and> fst (snd (EnsurePterodactylUser ex_env 0 created_world)) = Some ex_user
   \<and> cmds (fst (EnsurePterodactylUser ex_env 0 created_world)) =
        [[''useradd'', ''--system'', ''--no-create-home'', ''--shell'', ''/bin/false'', ''pterodactyl'']]
   \<and> User (System (cfgs (fst (EnsurePterodactylUser ex_env 0 created_world)) 0)) =
        \<lparr>Uid = 998, Gid = 997\<rparr>"
proof -
  have n: "u_Username ex_user = Username (System (cfgs fresh_world 0))"
    by (simp add: fresh_world_def ex_world_def ex_cfgs_def ex_cfg_def ex_system_def ex_user_def)
  from EnsurePterodactylUser_idempotent
         [of fresh_world 0 ex_user ex_env created_world None ex_env] ex_created_run n
  show ?thesis
    by (simp add: created_world_simps)
qed

text \<open>
  C10, as claimed: an identifier that does not parse is recorded as 0. The string
  \<open>9223372036854775808\<close> does not parse, \<^verbatim>\<open>strconv.Atoi\<close> returns a range error
  for it, and the identifier recorded is 9223372036854775807.
\<close>

theorem setSystemUser_range_error_counterexample:
  "snd (Atoi (u_Uid (ex_user\<lparr>u_Uid := ''9223372036854775808''\<rparr>)))
     = Some (ErrRange ''9223372036854775808'')
   \<and> Uid (User (System (cfgs (fst (setSystemUser ex_env 0
            (ex_user\<lparr>u_Uid := ''9223372036854775808''\<rparr>) ex_world)) 0)))
     = 9223372036854775807
   \<and> snd (setSystemUser ex_env 0 (ex_user\<lparr>u_Uid := ''9223372036854775808''\<rparr>) ex_world) = None"
  by (simp add: setSystemUser_recorded ex_setSystemUser_ok Atoi_out_of_range)

text \<open>
  C10, amended. \<^verbatim>\<open>setSystemUser\<close> records the values that \<^verbatim>\<open>strconv.Atoi\<close>
  returns for \<^verbatim>\<open>Uid\<close> and \<^verbatim>\<open>Gid\<close> and drops its errors: the value is 0 when
  the error is a syntax error, and the largest or the smallest \<^verbatim>\<open>int\<close> when it is
  a range error (there is no other error). The call then is the call of
  \<^verbatim>\<open>WriteToDisk\<close> on the updated configuration, so that only an error of the
  write is returned.
\<close>

theorem setSystemUser_discards_parse_errors:
  "Uid (User (System (cfgs (fst (setSystemUser E c u w)) c))) = fst (Atoi (u_Uid u))
   \<and> Gid (User (System (cfgs (fst (setSystemUser E c u w)) c))) = fst (Atoi (u_Gid u))
   \<and> (\<forall>x. snd (Atoi (u_Uid u)) = Some (ErrSyntax x) \<longrightarrow>
          Uid (User (System (cfgs (fst (setSystemUser E c u w)) c))) = 0)
   \<and> (\<forall>x. snd (Atoi (u_Gid u)) = Some (ErrSyntax x) \<longrightarrow>
          Gid (User (System (cfgs (fst (setSystemUser E c u w)) c))) = 0)
   \<and> (\<forall>x. snd (Atoi (u_Uid u)) = Some (ErrRange x) \<longrightarrow>
          Uid (User (System (cfgs (fst (setSystemUser E c u w)) c))) = 2 ^ 63 - 1
          \<or> Uid (User (System (cfgs (fst (setSystemUser E c u w)) c))) = - (2 ^ 63))
   \<and> (\<forall>x. snd (Atoi (u_Gid u)) = Some (ErrRange x) \<longrightarrow>
          Gid (User (System (cfgs (fst (setSystemUser E c u w)) c))) = 2 ^ 63 - 1
          \<or> Gid (User (System (cfgs (fst (setSystemUser E c u w)) c))) = - (2 ^ 63))
   \<and> (\<forall>e. snd (Atoi (u_Uid u)) = Some e \<longrightarrow> e = ErrSyntax (u_Uid u) \<or> e = ErrRange (u_Uid u))
   \<and> (\<forall>e. snd (Atoi (u_Gid u)) = Some e \<longrightarrow> e = ErrSyntax (u_Gid u) \<or> e = ErrRange (u_Gid u))
   \<and> setSystemUser E c u w =
        WriteToDisk E c (w\<lparr>cfgs := (cfgs w)(c := record_user u (cfgs w c))\<rparr>)"
  unfolding setSystemUser_recorded
  using ParseInt_syntax_zero [of "u_Uid u"] ParseInt_syntax_zero [of "u_Gid u"]
    ParseInt_range_bound [of "u_Uid u"] ParseInt_range_bound [of "u_Gid u"]
    ParseInt_error_kinds [of "u_Uid u"] ParseInt_error_kinds [of "u_Gid u"]
  by (simp add: Atoi_def setSystemUser_def)

theorem setSystemUser_discards_parse_errors_witness:
  "snd (Atoi (u_Uid (ex_user\<lparr>u_Uid := ''S-1-5-21''\<rparr>))) = Some (ErrSyntax ''S-1-5-21'')
   \<and> Uid (User (System (cfgs (fst (setSystemUser ex_env 0
            (ex_user\<lparr>u_Uid := ''S-1-5-21''\<rparr>) ex_world)) 0))) = 0
   \<and> Gid (User (System (cfgs (fst (setSystemUser ex_env 0
            (ex_user\<lparr>u_Uid := ''S-1-5-21''\<rparr>) ex_world)) 0))) = 997
   \<and> snd (setSystemUser ex_env 0 (ex_user\<lparr>u_Uid := ''S-1-5-21''\<rparr>) ex_world) = None"
proof -
  have a: "snd (Atoi (u_Uid (ex_user\<lparr>u_Uid := ''S-1-5-21''\<rparr>))) = Some (ErrSyntax ''S-1-5-21'')"
    by (simp add: Atoi_not_a_number)
  have g: "fst (Atoi (u_Gid (ex_user\<lparr>u_Uid := ''S-1-5-21''\<rparr>))) = 997"
    by (simp add: ex_user_def Atoi_997)
  note t = setSystemUser_discards_parse_errors
             [of ex_env 0 "ex_user\<lparr>u_Uid := ''S-1-5-21''\<rparr>" ex_world]
  from t a have u0: "Uid (User (System (cfgs (fst (setSystemUser ex_env 0
            (ex_user\<lparr>u_Uid := ''S-1-5-21''\<rparr>) ex_world)) 0))) = 0"
    by blast
  from t g have g0: "Gid (User (System (cfgs (fst (setSystemUser ex_env 0
            (ex_user\<lparr>u_Uid := ''S-1-5-21''\<rparr>) ex_world)) 0))) = 997"
    by metis
  from a u0 g0 ex_setSystemUser_ok show ?thesis
    by blast
qed

subsection \<open>The permission reconciler\<close>

text \<open>
  The regular expression of the source and the pattern of the specification accept
  the same names: a match fixes the length, and a name of 36 bytes is compared
  byte by byte.
\<close>

lemma match_items_length: "match_items r s \<Longrightarrow> length s = re_len r"
  by (induction r s rule: match_items.induct) (auto split: list.splits)

lemma re_len_uuid_re: "re_len uuid_re = 36"
  by (simp add: uuid_re_def)

lemma hexclass_iff: "(x \<in> set hexclass) = is_lower_hex x"
  by (auto simp: hexclass_def is_lower_hex_def)

lemma upt_36: "[0..<36] = [0, 1, 2, 3, 4, 5, 6, 7, 8, 9, 10, 11, 12, 13, 14, 15, 16, 17, 18, 19,
   20, 21, 22, 23, 24, 25, 26, 27, 28, 29, 30, 31, 32, 33, 34, 35 :: nat]"
  by code_simp

lemma length_36:
  assumes "length (s :: 'a list) = 36"
  shows "s = [s ! 0, s ! 1, s ! 2, s ! 3, s ! 4, s ! 5, s ! 6, s ! 7, s ! 8, s ! 9, s ! 10, s ! 11, s ! 12, s ! 13, s ! 14, s ! 15, s ! 16, s ! 17, s ! 18, s ! 19, s ! 20, s ! 21, s ! 22, s ! 23, s ! 24, s ! 25, s ! 26, s ! 27, s ! 28, s ! 29, s ! 30, s ! 31, s ! 32, s ! 33, s ! 34, s ! 35]"
proof -
  have "s = map ((!) s) [0..<length s]"
    by (simp add: map_nth)
  also have "\<dots> = map ((!) s) [0..<36]"
    by (simp add: assms)
  finally show ?thesis
    by (simp add: upt_36)
qed

lemma hex_4: "is_lower_hex CHR ''4''"
  by (simp add: is_lower_hex_def)

lemma hex_variant:
  "c = CHR ''8'' \<or> c = CHR ''9'' \<or> c = CHR ''a'' \<or> c = CHR ''b'' \<Longrightarrow> is_lower_hex c"
  by (auto simp: is_lower_hex_def)

lemma uuid_explicit:
  "match_items uuid_re [c0, c1, c2, c3, c4, c5, c6, c7, c8, c9, c10, c11, c12, c13, c14, c15, c16, c17, c18, c19, c20, c21, c22, c23, c24, c25, c26, c27, c28, c29, c30, c31, c32, c33, c34, c35] =
   canonical_uuid4 [c0, c1, c2, c3, c4, c5, c6, c7, c8, c9, c10, c11, c12, c13, c14, c15, c16, c17, c18, c19, c20, c21, c22, c23, c24, c25, c26, c27, c28, c29, c30, c31, c32, c33, c34, c35]"
  unfolding uuid_re_def canonical_uuid4_def upt_36
  apply (simp add: hexclass_iff)
  apply (insert hex_4 hex_variant [of c19])
  apply blast
  done


lemma MatchString_uuid_iff: "MatchString uuid_re s = canonical_uuid4 s"
proof (cases "length s = 36")
  case True
  show ?thesis
    unfolding MatchString_def
    by (subst (1 2) length_36 [OF True]) (rule uuid_explicit)
next
  case False
  have "\<not> match_items uuid_re s"
    using match_items_length [of uuid_re s] False by (auto simp: re_len_uuid_re)
  moreover have "\<not> canonical_uuid4 s"
    using False by (simp add: canonical_uuid4_def)
  ultimately show ?thesis
    by (simp add: MatchString_def)
qed

lemma chown_entry_skip:
  "\<not> (IsDir f \<and> canonical_uuid4 (Name f)) \<Longrightarrow> chown_entry E c su w f = w"
  by (auto simp: chown_entry_def MatchString_uuid_iff)

lemma chown_entry_match:
  "IsDir f \<Longrightarrow> canonical_uuid4 (Name f) \<Longrightarrow>
   chown_entry E c su w f =
     w\<lparr>chowns := chowns w @ [chown_call E (Data (System (cfgs w c))) su f],
       warns := warns w @ (if chown_fails E (Data (System (cfgs w c))) su f
                           then [chown_warning E (Data (System (cfgs w c))) su f] else [])\<rparr>"
  by (auto simp: chown_entry_def MatchString_uuid_iff Let_def chown_call_def chown_fails_def
        chown_warning_def split: option.splits)

lemma chown_fold:
  "foldl (chown_entry E c su) w fs =
     w\<lparr>chowns := chowns w @ map (chown_call E (Data (System (cfgs w c))) su)
                              (filter (\<lambda>f. IsDir f \<and> canonical_uuid4 (Name f)) fs),
       warns := warns w @ map (chown_warning E (Data (System (cfgs w c))) su)
                            (filter (\<lambda>f. IsDir f \<and> canonical_uuid4 (Name f)
                                         \<and> chown_fails E (Data (System (cfgs w c))) su f) fs)\<rparr>"
proof (induction fs arbitrary: w)
  case Nil
  show ?case by simp
next
  case (Cons f fs)
  show ?case
  proof (cases "IsDir f \<and> canonical_uuid4 (Name f)")
    case False
    then show ?thesis
      using Cons.IH [of w] by (auto simp: chown_entry_skip)
  next
    case True
    then show ?thesis
      by (simp add: chown_entry_match Cons.IH)
  qed
qed


lemma EnsureFilePermissions_run:
  assumes "SetPermissionsOnBoot (System (cfgs w c))"
    and "ReadDir E (Data (System (cfgs w c))) = Inr fs"
    and "accounts w (Username (System (cfgs w c))) = Inr su"
  shows "EnsureFilePermissions E c w =
     (w\<lparr>chowns := chowns w @ map (chown_call E (Data (System (cfgs w c))) su)
                              (filter (\<lambda>f. IsDir f \<and> canonical_uuid4 (Name f)) fs),
        warns := warns w @ map (chown_warning E (Data (System (cfgs w c))) su)
                            (filter (\<lambda>f. IsDir f \<and> canonical_uuid4 (Name f)
                                         \<and> chown_fails E (Data (System (cfgs w c))) su f) fs)\<rparr>,
      None)"
  using assms by (simp add: EnsureFilePermissions_def chown_fold)

lemma ex_efp_pre:
  "SetPermissionsOnBoot (System (cfgs ex_world 0))"
  "Data (System (cfgs ex_world 0)) = ''/srv/daemon-data''"
  "accounts ex_world (Username (System (cfgs ex_world 0))) = Inr ex_user"
  by (simp_all add: ex_world_def ex_cfgs_def ex_cfg_def ex_system_def ex_accounts_def)

lemma ex_ReadDir:
  "ReadDir ex_env d = Inr ex_listing" "ReadDir denied_env d = Inr ex_listing"
  by (simp_all add: denied_env_def ex_env_def)

lemma ex_canonical:
  "canonical_uuid4 ''a1b2c3d4-e5f6-4789-8abc-def012345678''"
  "\<not> canonical_uuid4 ''notadirectory.txt''"
  "\<not> canonical_uuid4 ''plain-folder''"
  by (simp_all add: canonical_uuid4_def upt_36 is_lower_hex_def)

lemma ex_filter:
  "filter (\<lambda>f. IsDir f \<and> canonical_uuid4 (Name f)) ex_listing =
     [\<lparr>Name = ''a1b2c3d4-e5f6-4789-8abc-def012345678'', IsDir = True\<rparr>]"
  by (simp add: ex_listing_def ex_canonical)

text \<open>
  C3. With the permission pass switched on, a listing that succeeds and an account
  that is found, \<^verbatim>\<open>EnsureFilePermissions\<close> attempts one ownership change for each
  listed entry that is a directory with a canonical version 4 UUID as its name, in
  the words of the specification, and for no other entry: the goroutine of any
  other entry changes nothing. The call returns no error and changes neither
  configurations, files, accounts nor the commands run.
\<close>

theorem EnsureFilePermissions_touches_uuid_directories:
  assumes "SetPermissionsOnBoot (System (cfgs w c))"
    and "ReadDir E (Data (System (cfgs w c))) = Inr fs"
    and "accounts w (Username (System (cfgs w c))) = Inr su"
  shows "chowns (fst (EnsureFilePermissions E c w)) =
           chowns w @ map (chown_call E (Data (System (cfgs w c))) su)
                        (filter (\<lambda>f. IsDir f \<and> canonical_uuid4 (Name f)) fs)
       \<and> (\<forall>f v. \<not> (IsDir f \<and> canonical_uuid4 (Name f)) \<longrightarrow> chown_entry E c su v f = v)
       \<and> (\<forall>s. MatchString uuid_re s = canonical_uuid4 s)
       \<and> snd (EnsureFilePermissions E c w) = None
       \<and> cfgs (fst (EnsureFilePermissions E c w)) = cfgs w
       \<and> files (fst (EnsureFilePermissions E c w)) = files w
       \<and> accounts (fst (EnsureFilePermissions E c w)) = accounts w
       \<and> cmds (fst (EnsureFilePermissions E c w)) = cmds w"
  unfolding EnsureFilePermissions_run [OF assms]
  by (simp add: chown_entry_skip MatchString_uuid_iff)

theorem EnsureFilePermissions_touches_uuid_directories_witness:
  "SetPermissionsOnBoot (System (cfgs ex_world 0))
   \<and> ReadDir ex_env (Data (System (cfgs ex_world 0))) = Inr ex_listing
   \<and> accounts ex_world (Username (System (cfgs ex_world 0))) = Inr ex_user
   \<and> chowns (fst (EnsureFilePermissions ex_env 0 ex_world)) =
        [(''/srv/daemon-data/a1b2c3d4-e5f6-4789-8abc-def012345678'', 998, 997)]
   \<and> snd (EnsureFilePermissions ex_env 0 ex_world) = None"
proof -
  have c: "chowns ex_world = []"
    by (simp add: ex_world_def)
  have j: "chown_call ex_env ''/srv/daemon-data'' ex_user
             \<lparr>Name = ''a1b2c3d4-e5f6-4789-8abc-def012345678'', IsDir = True\<rparr> =
           (''/srv/daemon-data/a1b2c3d4-e5f6-4789-8abc-def012345678'', 998, 997)"
    by (simp add: chown_call_def ex_env_def ex_user_def Atoi_998 Atoi_997)
  from EnsureFilePermissions_touches_uuid_directories
         [OF ex_efp_pre(1) ex_ReadDir(1) ex_efp_pre(3)]
  show ?thesis
    by (simp add: ex_efp_pre ex_ReadDir ex_filter c j)
qed

text \<open>
  C4, as claimed: once the listing has succeeded the call returns no error. On a
  host without the account the listing succeeds, the lookup of the account fails,
  and the call returns the error of the lookup.
\<close>

theorem EnsureFilePermissions_lookup_failure_counterexample:
  "SetPermissionsOnBoot (System (cfgs fresh_world 0))
   \<and> ReadDir ex_env (Data (System (cfgs fresh_world 0))) = Inr ex_listing
   \<and> EnsureFilePermissions ex_env 0 fresh_world =
       (fresh_world, Some (UnknownUserError ''pterodactyl''))"
  by (simp add: EnsureFilePermissions_def ex_ReadDir fresh_world_def ex_world_def ex_cfgs_def
        ex_cfg_def ex_system_def no_accounts_def)

text \<open>
  C4, amended. With the permission pass switched on and the listing succeeded, the
  call returns no error once the lookup of the account has succeeded too, however
  many ownership changes fail: each failure is logged as one warning with the name
  of the directory and the cause. When the lookup fails the call returns its error
  and changes nothing.
\<close>

theorem EnsureFilePermissions_chown_failures_logged:
  assumes "SetPermissionsOnBoot (System (cfgs w c))"
    and "ReadDir E (Data (System (cfgs w c))) = Inr fs"
  shows "(\<forall>su. accounts w (Username (System (cfgs w c))) = Inr su \<longrightarrow>
            snd (EnsureFilePermissions E c w) = None
            \<and> warns (fst (EnsureFilePermissions E c w)) =
                warns w @ map (chown_warning E (Data (System (cfgs w c))) su)
                            (filter (\<lambda>f. IsDir f \<and> canonical_uuid4 (Name f)
                                         \<and> chown_fails E (Data (System (cfgs w c))) su f) fs))
       \<and> (\<forall>e. accounts w (Username (System (cfgs w c))) = Inl e \<longrightarrow>
            EnsureFilePermissions E c w = (w, Some e))"
proof (intro conjI allI impI)
  fix su
  assume l: "accounts w (Username (System (cfgs w c))) = Inr su"
  show "snd (EnsureFilePermissions E c w) = None"
    by (simp add: EnsureFilePermissions_run [OF assms l])
  show "warns (fst (EnsureFilePermissions E c w)) =
          warns w @ map (chown_warning E (Data (System (cfgs w c))) su)
                      (filter (\<lambda>f. IsDir f \<and> canonical_uuid4 (Name f)
                                   \<and> chown_fails E (Data (System (cfgs w c))) su f) fs)"
    by (simp add: EnsureFilePermissions_run [OF assms l])
next
  fix e
  assume "accounts w (Username (System (cfgs w c))) = Inl e"
  with assms show "EnsureFilePermissions E c w = (w, Some e)"
    by (simp add: EnsureFilePermissions_def)
qed

theorem EnsureFilePermissions_chown_failures_logged_witness:
  "SetPermissionsOnBoot (System (cfgs ex_world 0))
   \<and> ReadDir denied_env (Data (System (cfgs ex_world 0))) = Inr ex_listing
   \<and> snd (EnsureFilePermissions denied_env 0 ex_world) = None
   \<and> warns (fst (EnsureFilePermissions denied_env 0 ex_world)) =
        [(''failed to chown server directory'', ''a1b2c3d4-e5f6-4789-8abc-def012345678'',
          ExternalError ''operation not permitted'')]"
proof -
  have w: "warns ex_world = []"
    by (simp add: ex_world_def)
  have f: "\<And>f. chown_fails denied_env ''/srv/daemon-data'' ex_user f"
    by (simp add: chown_fails_def denied_env_def)
  have j: "chown_warning denied_env ''/srv/daemon-data'' ex_user
             \<lparr>Name = ''a1b2c3d4-e5f6-4789-8abc-def012345678'', IsDir = True\<rparr> =
           (''failed to chown server directory'', ''a1b2c3d4-e5f6-4789-8abc-def012345678'',
            ExternalError ''operation not permitted'')"
    by (simp add: chown_warning_def denied_env_def)
  from EnsureFilePermissions_chown_failures_logged [OF ex_efp_pre(1) ex_ReadDir(2)] ex_efp_pre(3)
  have "snd (EnsureFilePermissions denied_env 0 ex_world) = None
        \<and> warns (fst (EnsureFilePermissions denied_env 0 ex_world)) =
            warns ex_world @ map (chown_warning denied_env (Data (System (cfgs ex_world 0))) ex_user)
              (filter (\<lambda>f. IsDir f \<and> canonical_uuid4 (Name f)
                 \<and> chown_fails denied_env (Data (System (cfgs ex_world 0))) ex_user f) ex_listing)"
    by blast
  then show ?thesis
    by (simp add: ex_efp_pre ex_ReadDir ex_filter w f j)
qed

end
